theory Spec2Isabelle
  imports Complex_Main "HOL-Library.Word"
begin

section \<open>MediBox control core: a shallow embedding of \<open>src/version2/main.cpp\<close>\<close>

text \<open>
  The sketch runs on an ESP32: \<open>int\<close> and \<open>unsigned long\<close> are 32 bits wide.
  Timestamps read from \<open>millis()\<close> are \<open>unsigned long\<close> and are modelled as
  \<open>32 word\<close>, so that \<open>millis() - last\<close> wraps as in the source. The small
  counters and cursors of type \<open>int\<close> (hours, minutes, menu cursors, the time-zone offset)
  are modelled as \<open>int\<close>; the one \<open>int\<close> product that can leave the 32-bit range
  (\<open>atoi(message) * 1000\<close>) has its wrap-around written out.

  Every function of the source that changes a global variable is a function from the
  state to the state. A call of \<open>millis()\<close>, a sensor read and a read of the NTP clock is
  a parameter of the function that performs it; the reads of \<open>millis()\<close> inside one call
  are taken at the same instant. The display, the serial port and the MQTT publication
  are sinks only and are left out. The \<open>float\<close> tunables \<open>theta_offset\<close>, \<open>T_med\<close> and
  \<open>controlFactor\<close> are read by \<open>adjustServo\<close> alone, which changes no global variable
  and writes only to the servo: they are parameters of its model, and its result is the
  angle it hands to \<open>servo.write\<close>.
\<close>

subsection \<open>Data\<close>

type_synonym millis = "32 word"

record Alarm =
  hour :: int
  minute :: int
  active :: bool
  ringing :: bool
  snoozed :: bool
  snoozeStartTime :: millis

datatype AppState = WELCOME | SHOW_TIME | MAIN_MENU | SET_ALARM_HOUR | SET_ALARM_MINUTE
  | SET_TIMEZONE | VIEW_ALARMS | ALARM_TRIGGERED | CONFIRM_DELETE

text \<open>
  A \<open>float\<close> sample as far as comparisons see it: not-a-number, an infinity or a finite
  value. The DHT driver returns not-a-number when a read fails.
\<close>

datatype cfloat = FNaN | FNegInf | FFin real | FPosInf

fun flt_less :: "cfloat \<Rightarrow> cfloat \<Rightarrow> bool" where
  "flt_less FNaN _ = False"
| "flt_less _ FNaN = False"
| "flt_less _ FNegInf = False"
| "flt_less FNegInf _ = True"
| "flt_less FPosInf _ = False"
| "flt_less (FFin a) (FFin b) = (a < b)"
| "flt_less (FFin a) FPosInf = True"

definition MIN_TEMP :: cfloat where "MIN_TEMP = FFin 24"
definition MAX_TEMP :: cfloat where "MAX_TEMP = FFin 32"
definition MIN_HUMIDITY :: cfloat where "MIN_HUMIDITY = FFin 65"
definition MAX_HUMIDITY :: cfloat where "MAX_HUMIDITY = FFin 80"

definition DEBOUNCE_TIME :: millis where "DEBOUNCE_TIME = 200"
definition ENV_CHECK_INTERVAL :: millis where "ENV_CHECK_INTERVAL = 2000"
definition LED_TOGGLE_INTERVAL :: millis where "LED_TOGGLE_INTERVAL = 500"
definition SNOOZE_DURATION :: millis where "SNOOZE_DURATION = 120000"

definition menuItemCount :: int where "menuItemCount = 4"

definition sampling_interval_topic :: string where
  "sampling_interval_topic = ''medicine_storage/config/sampling_interval''"
definition sending_interval_topic :: string where
  "sending_interval_topic = ''medicine_storage/config/sending_interval''"
definition amp_temp_topic :: string where
  "amp_temp_topic = ''medicine_storage/config/AmpTemp''"
definition control_factor_topic :: string where
  "control_factor_topic = ''medicine_storage/config/ControlFactor''"
definition min_angle_topic :: string where
  "min_angle_topic = ''medicine_storage/config/minAngle''"

text \<open>
  The global variables. \<open>buzzerPin\<close> and \<open>ledPin\<close> are the levels last written to
  \<open>BUZZER_PIN\<close> and \<open>LED_PIN\<close>; \<open>lastBeep\<close> and \<open>buzzerState\<close> are the statics of
  \<open>handleAlarmTrigger\<close>. \<open>lightSamples\<close> stands for the \<open>float\<close> accumulator
  \<open>lightIntensitySum\<close>: it lists the raw LDR readings whose normalised values have
  been added since the last reset.
\<close>

record State =
  alarms :: "Alarm list"
  alarmTriggered :: bool
  envWarning :: bool
  currentAlarmIndex :: int
  viewAlarmsSelection :: int
  temperature :: cfloat
  humidity :: cfloat
  lastEnvCheck :: millis
  lastLedToggle :: millis
  currentState :: AppState
  menuOption :: int
  timeZoneOffset :: int
  btnUpPressed :: bool
  btnLeftPressed :: bool
  btnDownPressed :: bool
  btnRightPressed :: bool
  stopAlarmFlag :: bool
  snoozeAlarmFlag :: bool
  lastInterruptTime :: millis
  samplingInterval :: millis
  sendingInterval :: millis
  lightSamples :: "int list"
  sampleCount :: int
  lastSampleTime :: millis
  lastSendTime :: millis
  ts :: int
  tu :: int
  lastBeep :: millis
  buzzerState :: bool
  buzzerPin :: bool
  ledPin :: bool

definition alarm0 :: Alarm where
  "alarm0 = \<lparr>hour = 0, minute = 0, active = False, ringing = False, snoozed = False,
     snoozeStartTime = 0\<rparr>"

text \<open>The initialisers of the globals; \<open>setup\<close> drives the LED high.\<close>

definition init :: State where
  "init = \<lparr>alarms = [alarm0, alarm0], alarmTriggered = False, envWarning = False,
     currentAlarmIndex = 0, viewAlarmsSelection = 0, temperature = FFin 0,
     humidity = FFin 0, lastEnvCheck = 0, lastLedToggle = 0, currentState = WELCOME,
     menuOption = 0, timeZoneOffset = 19800, btnUpPressed = False,
     btnLeftPressed = False, btnDownPressed = False, btnRightPressed = False,
     stopAlarmFlag = False, snoozeAlarmFlag = False, lastInterruptTime = 0,
     samplingInterval = 5000, sendingInterval = 120000, lightSamples = [],
     sampleCount = 0, lastSampleTime = 0, lastSendTime = 0, ts = 5000, tu = 120000,
     lastBeep = 0, buzzerState = False, buzzerPin = False, ledPin = True\<rparr>"

subsection \<open>Interrupt service routines\<close>

definition handleUpInterrupt :: "millis \<Rightarrow> State \<Rightarrow> State" where
  "handleUpInterrupt now s =
     (if now - lastInterruptTime s > DEBOUNCE_TIME
      then s\<lparr>btnUpPressed := True, lastInterruptTime := now\<rparr>
      else s)"

definition handleLeftInterrupt :: "millis \<Rightarrow> State \<Rightarrow> State" where
  "handleLeftInterrupt now s =
     (if now - lastInterruptTime s > DEBOUNCE_TIME
      then s\<lparr>btnLeftPressed := True, lastInterruptTime := now\<rparr>
      else s)"

definition handleDownInterrupt :: "millis \<Rightarrow> State \<Rightarrow> State" where
  "handleDownInterrupt now s =
     (if now - lastInterruptTime s > DEBOUNCE_TIME
      then (let s1 = s\<lparr>btnDownPressed := True\<rparr>;
                s2 = (if currentState s1 = ALARM_TRIGGERED
                      then s1\<lparr>snoozeAlarmFlag := True\<rparr> else s1)
            in s2\<lparr>lastInterruptTime := now\<rparr>)
      else s)"

definition handleRightInterrupt :: "millis \<Rightarrow> State \<Rightarrow> State" where
  "handleRightInterrupt now s =
     (if now - lastInterruptTime s > DEBOUNCE_TIME
      then (let s1 = s\<lparr>btnRightPressed := True\<rparr>;
                s2 = (if currentState s1 = ALARM_TRIGGERED
                      then s1\<lparr>stopAlarmFlag := True\<rparr> else s1)
            in s2\<lparr>lastInterruptTime := now\<rparr>)
      else s)"

datatype Button = Up | Left | Down | Right

fun isr :: "Button \<Rightarrow> millis \<Rightarrow> State \<Rightarrow> State" where
  "isr Up now s = handleUpInterrupt now s"
| "isr Left now s = handleLeftInterrupt now s"
| "isr Down now s = handleDownInterrupt now s"
| "isr Right now s = handleRightInterrupt now s"

fun pressed :: "Button \<Rightarrow> State \<Rightarrow> bool" where
  "pressed Up s = btnUpPressed s"
| "pressed Left s = btnLeftPressed s"
| "pressed Down s = btnDownPressed s"
| "pressed Right s = btnRightPressed s"

subsection \<open>Remote configuration\<close>

text \<open>
  \<open>atoi\<close> as newlib has it, \<open>(int) strtol(s, NULL, 10)\<close>: leading white space, an
  optional sign, the longest run of decimal digits, saturating at the ends of the 32-bit
  range; 0 when there is no digit.
\<close>

definition isspace :: "char \<Rightarrow> bool" where
  "isspace c = ((of_char c :: nat) = 32 \<or> (9 \<le> (of_char c :: nat) \<and> (of_char c :: nat) \<le> 13))"

definition isdigit :: "char \<Rightarrow> bool" where
  "isdigit c = (48 \<le> (of_char c :: nat) \<and> (of_char c :: nat) \<le> 57)"

fun digits_val :: "int \<Rightarrow> string \<Rightarrow> int" where
  "digits_val acc [] = acc"
| "digits_val acc (c # cs) =
     (if isdigit c then digits_val (acc * 10 + (int (of_char c) - 48)) cs else acc)"

definition atoi :: "string \<Rightarrow> int" where
  "atoi s =
     (let r = dropWhile isspace s in
      if r \<noteq> [] \<and> hd r = CHR ''-'' then max (- (2 ^ 31)) (- digits_val 0 (tl r))
      else if r \<noteq> [] \<and> hd r = CHR ''+'' then min (2 ^ 31 - 1) (digits_val 0 (tl r))
      else min (2 ^ 31 - 1) (digits_val 0 r))"

text \<open>The value of a 32-bit \<open>int\<close> expression whose mathematical result is \<open>x\<close>.\<close>

definition wrap32 :: "int \<Rightarrow> int" where
  "wrap32 x = (x + 2 ^ 31) mod 2 ^ 32 - 2 ^ 31"

text \<open>
  The three topics whose payload goes through \<open>atof\<close> into a \<open>float\<close> tunable
  (\<open>theta_offset\<close>, \<open>controlFactor\<close>, \<open>T_med\<close>, in the order of the source) change
  nothing in the modelled part of the state, like an unknown topic.
\<close>

definition recieveCallback :: "string \<Rightarrow> string \<Rightarrow> State \<Rightarrow> State" where
  "recieveCallback topic message s =
     (if topic = sampling_interval_topic then s\<lparr>ts := wrap32 (atoi message * 1000)\<rparr>
      else if topic = sending_interval_topic then s\<lparr>tu := wrap32 (atoi message * 60000)\<rparr>
      else if topic = min_angle_topic then s
      else if topic = control_factor_topic then s
      else if topic = amp_temp_topic then s
      else s)"

subsection \<open>Environment monitor\<close>

definition checkEnvironment :: "millis \<Rightarrow> cfloat \<Rightarrow> cfloat \<Rightarrow> State \<Rightarrow> State" where
  "checkEnvironment now dhtT dhtH s =
     (if now - lastEnvCheck s > ENV_CHECK_INTERVAL
      then (let s1 = s\<lparr>temperature := dhtT, humidity := dhtH, lastEnvCheck := now\<rparr>;
                s2 = s1\<lparr>envWarning :=
                       (flt_less (temperature s1) MIN_TEMP \<or> flt_less MAX_TEMP (temperature s1)
                        \<or> flt_less (humidity s1) MIN_HUMIDITY
                        \<or> flt_less MAX_HUMIDITY (humidity s1))\<rparr>
            in if envWarning s2 \<and> \<not> alarmTriggered s2
               then s2\<lparr>buzzerPin := True\<rparr>
               else s2\<lparr>buzzerPin := False\<rparr>)
      else s)"

definition handleLED :: "millis \<Rightarrow> State \<Rightarrow> State" where
  "handleLED now s =
     (if envWarning s
      then (if now - lastLedToggle s > LED_TOGGLE_INTERVAL
            then s\<lparr>ledPin := \<not> ledPin s, lastLedToggle := now\<rparr>
            else s)
      else s\<lparr>ledPin := True\<rparr>)"

subsection \<open>Alarm scheduler\<close>

text \<open>One pass of the body of the \<open>for\<close> loop of \<open>checkAlarms\<close>, for slot \<open>i\<close>.\<close>

definition checkAlarms_body :: "int \<Rightarrow> int \<Rightarrow> millis \<Rightarrow> nat \<Rightarrow> State \<Rightarrow> State" where
  "checkAlarms_body currentHour currentMinute currentMillis i s =
     (if snoozed (alarms s ! i)
         \<and> \<not> (currentMillis - snoozeStartTime (alarms s ! i) \<ge> SNOOZE_DURATION)
      then s
      else
        (let s1 = (if snoozed (alarms s ! i)
                   then s\<lparr>alarms := (alarms s)[i := (alarms s ! i)
                            \<lparr>hour := currentHour, minute := currentMinute, snoozed := False\<rparr>]\<rparr>
                   else s)
         in if active (alarms s1 ! i) \<and> \<not> ringing (alarms s1 ! i)
               \<and> hour (alarms s1 ! i) = currentHour \<and> minute (alarms s1 ! i) = currentMinute
            then s1\<lparr>alarms := (alarms s1)[i := (alarms s1 ! i)\<lparr>ringing := True\<rparr>],
                    alarmTriggered := True, currentState := ALARM_TRIGGERED\<rparr>
            else s1))"

definition checkAlarms :: "int \<Rightarrow> int \<Rightarrow> millis \<Rightarrow> State \<Rightarrow> State" where
  "checkAlarms currentHour currentMinute currentMillis s =
     (if alarmTriggered s then s
      else fold (checkAlarms_body currentHour currentMinute currentMillis) [0, 1] s)"

text \<open>
  The scan shared by \<open>handleAlarmTrigger\<close> and \<open>updateDisplay\<close>: the first ringing slot
  becomes \<open>currentAlarmIndex\<close>, and the loop stops there.
\<close>

definition findRinging :: "State \<Rightarrow> State" where
  "findRinging s =
     (if ringing (alarms s ! 0) then s\<lparr>currentAlarmIndex := 0\<rparr>
      else if ringing (alarms s ! 1) then s\<lparr>currentAlarmIndex := 1\<rparr>
      else s)"

definition handleAlarmTrigger :: "millis \<Rightarrow> State \<Rightarrow> State" where
  "handleAlarmTrigger now s =
     (let s1 = s\<lparr>buzzerPin := False\<rparr>;
          s2 = (if now - lastBeep s1 > 500
                then s1\<lparr>buzzerState := \<not> buzzerState s1, buzzerPin := (\<not> buzzerState s1),
                        lastBeep := now\<rparr>
                else s1)
      in findRinging s2)"

definition stopAlarm_body :: "nat \<Rightarrow> State \<Rightarrow> State" where
  "stopAlarm_body i s =
     s\<lparr>alarms := (alarms s)[i := (alarms s ! i)\<lparr>ringing := False, snoozed := False\<rparr>]\<rparr>"

definition stopAlarm :: "State \<Rightarrow> State" where
  "stopAlarm s =
     (let s1 = s\<lparr>buzzerPin := False, alarmTriggered := False\<rparr>;
          s2 = fold stopAlarm_body [0, 1] s1
      in s2\<lparr>currentState := SHOW_TIME\<rparr>)"

definition snoozeAlarm :: "millis \<Rightarrow> State \<Rightarrow> State" where
  "snoozeAlarm now s =
     (let s1 = s\<lparr>buzzerPin := False, alarmTriggered := False\<rparr>;
          i = nat (currentAlarmIndex s1);
          s2 = s1\<lparr>alarms := (alarms s1)[i := (alarms s1 ! i)
                  \<lparr>ringing := False, snoozed := True, snoozeStartTime := now\<rparr>]\<rparr>
      in s2\<lparr>currentState := SHOW_TIME\<rparr>)"

subsection \<open>Button handlers\<close>

text \<open>C's \<open>%\<close> truncates towards zero; the divisors of the source are positive.\<close>

definition c_rem :: "int \<Rightarrow> int \<Rightarrow> int" where
  "c_rem a b = (if 0 \<le> a then a mod b else - ((- a) mod b))"

definition deleteSelected :: "State \<Rightarrow> State" where
  "deleteSelected s =
     (let i = nat (viewAlarmsSelection s) in
      s\<lparr>alarms := (alarms s)[i := (alarms s ! i)
           \<lparr>active := False, ringing := False, snoozed := False\<rparr>],
        currentState := VIEW_ALARMS\<rparr>)"

definition handleRightButton :: "State \<Rightarrow> State" where
  "handleRightButton s =
     (case currentState s of
        WELCOME \<Rightarrow> s\<lparr>currentState := SHOW_TIME\<rparr>
      | SHOW_TIME \<Rightarrow> s\<lparr>currentState := MAIN_MENU, menuOption := 0\<rparr>
      | MAIN_MENU \<Rightarrow>
          (if menuOption s = 0 then s\<lparr>currentAlarmIndex := 0, currentState := SET_ALARM_HOUR\<rparr>
           else if menuOption s = 1
             then s\<lparr>currentAlarmIndex := 1, currentState := SET_ALARM_HOUR\<rparr>
           else if menuOption s = 2 then s\<lparr>currentState := SET_TIMEZONE\<rparr>
           else if menuOption s = 3
             then s\<lparr>viewAlarmsSelection := 0, currentState := VIEW_ALARMS\<rparr>
           else s)
      | SET_ALARM_HOUR \<Rightarrow> s\<lparr>currentState := SET_ALARM_MINUTE\<rparr>
      | SET_ALARM_MINUTE \<Rightarrow>
          (let i = nat (currentAlarmIndex s) in
           s\<lparr>alarms := (alarms s)[i := (alarms s ! i)\<lparr>active := True\<rparr>],
             currentState := MAIN_MENU\<rparr>)
      | SET_TIMEZONE \<Rightarrow> s\<lparr>currentState := MAIN_MENU\<rparr>
      | VIEW_ALARMS \<Rightarrow>
          (if active (alarms s ! nat (viewAlarmsSelection s))
           then s\<lparr>currentState := CONFIRM_DELETE\<rparr> else s)
      | CONFIRM_DELETE \<Rightarrow> deleteSelected s
      | ALARM_TRIGGERED \<Rightarrow> stopAlarm s)"

definition handleLeftButton :: "State \<Rightarrow> State" where
  "handleLeftButton s =
     (if currentState s = SHOW_TIME then s\<lparr>currentState := WELCOME\<rparr>
      else if currentState s = MAIN_MENU \<or> currentState s = VIEW_ALARMS
              \<or> currentState s = CONFIRM_DELETE
        then s\<lparr>currentState := SHOW_TIME\<rparr>
      else if currentState s = SET_ALARM_HOUR \<or> currentState s = SET_ALARM_MINUTE
              \<or> currentState s = SET_TIMEZONE
        then s\<lparr>currentState := MAIN_MENU\<rparr>
      else s)"

definition handleUpButton :: "State \<Rightarrow> State" where
  "handleUpButton s =
     (case currentState s of
        SET_ALARM_HOUR \<Rightarrow>
          (let i = nat (currentAlarmIndex s) in
           s\<lparr>alarms := (alarms s)[i := (alarms s ! i)
                \<lparr>hour := c_rem (hour (alarms s ! i) + 1) 24\<rparr>]\<rparr>)
      | SET_ALARM_MINUTE \<Rightarrow>
          (let i = nat (currentAlarmIndex s) in
           s\<lparr>alarms := (alarms s)[i := (alarms s ! i)
                \<lparr>minute := c_rem (minute (alarms s ! i) + 1) 60\<rparr>]\<rparr>)
      | SET_TIMEZONE \<Rightarrow>
          (let s1 = s\<lparr>timeZoneOffset := timeZoneOffset s + 1800\<rparr> in
           if timeZoneOffset s1 > 86400
           then s1\<lparr>timeZoneOffset := timeZoneOffset s1 - 86400\<rparr> else s1)
      | MAIN_MENU \<Rightarrow> s\<lparr>menuOption := c_rem (menuOption s - 1 + menuItemCount) menuItemCount\<rparr>
      | VIEW_ALARMS \<Rightarrow>
          s\<lparr>viewAlarmsSelection := c_rem (viewAlarmsSelection s - 1 + 2) 2\<rparr>
      | CONFIRM_DELETE \<Rightarrow> deleteSelected s
      | _ \<Rightarrow> s)"

definition handleDownButton :: "State \<Rightarrow> State" where
  "handleDownButton s =
     (case currentState s of
        SET_ALARM_HOUR \<Rightarrow>
          (let i = nat (currentAlarmIndex s) in
           s\<lparr>alarms := (alarms s)[i := (alarms s ! i)
                \<lparr>hour := c_rem (hour (alarms s ! i) - 1 + 24) 24\<rparr>]\<rparr>)
      | SET_ALARM_MINUTE \<Rightarrow>
          (let i = nat (currentAlarmIndex s) in
           s\<lparr>alarms := (alarms s)[i := (alarms s ! i)
                \<lparr>minute := c_rem (minute (alarms s ! i) - 1 + 60) 60\<rparr>]\<rparr>)
      | SET_TIMEZONE \<Rightarrow>
          (let s1 = s\<lparr>timeZoneOffset := timeZoneOffset s - 1800\<rparr> in
           if timeZoneOffset s1 < - 86400
           then s1\<lparr>timeZoneOffset := timeZoneOffset s1 + 86400\<rparr> else s1)
      | MAIN_MENU \<Rightarrow> s\<lparr>menuOption := c_rem (menuOption s + 1) menuItemCount\<rparr>
      | VIEW_ALARMS \<Rightarrow> s\<lparr>viewAlarmsSelection := c_rem (viewAlarmsSelection s + 1) 2\<rparr>
      | CONFIRM_DELETE \<Rightarrow> s\<lparr>currentState := VIEW_ALARMS\<rparr>
      | _ \<Rightarrow> s)"

definition handleButtons :: "State \<Rightarrow> State" where
  "handleButtons s =
     (let s1 = (if btnRightPressed s
                then handleRightButton (s\<lparr>btnRightPressed := False\<rparr>) else s);
          s2 = (if btnLeftPressed s1
                then handleLeftButton (s1\<lparr>btnLeftPressed := False\<rparr>) else s1);
          s3 = (if btnUpPressed s2
                then handleUpButton (s2\<lparr>btnUpPressed := False\<rparr>) else s2);
          s4 = (if btnDownPressed s3
                then handleDownButton (s3\<lparr>btnDownPressed := False\<rparr>) else s3)
      in s4)"

text \<open>The only effect of \<open>updateDisplay\<close> on the globals, on the alarm page.\<close>

definition updateDisplay :: "State \<Rightarrow> State" where
  "updateDisplay s = (if currentState s = ALARM_TRIGGERED then findRinging s else s)"

subsection \<open>Light-servo controller\<close>


fun fneg :: "cfloat \<Rightarrow> cfloat" where
  "fneg FNaN = FNaN"
| "fneg FNegInf = FPosInf"
| "fneg FPosInf = FNegInf"
| "fneg (FFin a) = FFin (- a)"

fun fadd :: "(real \<Rightarrow> cfloat) \<Rightarrow> cfloat \<Rightarrow> cfloat \<Rightarrow> cfloat" where
  "fadd r FNaN _ = FNaN"
| "fadd r _ FNaN = FNaN"
| "fadd r FPosInf FNegInf = FNaN"
| "fadd r FNegInf FPosInf = FNaN"
| "fadd r FPosInf _ = FPosInf"
| "fadd r _ FPosInf = FPosInf"
| "fadd r FNegInf _ = FNegInf"
| "fadd r _ FNegInf = FNegInf"
| "fadd r (FFin a) (FFin b) = r (a + b)"

definition fsub :: "(real \<Rightarrow> cfloat) \<Rightarrow> cfloat \<Rightarrow> cfloat \<Rightarrow> cfloat" where
  "fsub r a b = fadd r a (fneg b)"

definition signed_inf :: "bool \<Rightarrow> cfloat" where
  "signed_inf positive = (if positive then FPosInf else FNegInf)"

fun fmul :: "(real \<Rightarrow> cfloat) \<Rightarrow> cfloat \<Rightarrow> cfloat \<Rightarrow> cfloat" where
  "fmul r FNaN _ = FNaN"
| "fmul r _ FNaN = FNaN"
| "fmul r (FFin a) (FFin b) = r (a * b)"
| "fmul r (FFin a) FPosInf = (if a = 0 then FNaN else signed_inf (0 < a))"
| "fmul r (FFin a) FNegInf = (if a = 0 then FNaN else signed_inf (a < 0))"
| "fmul r FPosInf (FFin b) = (if b = 0 then FNaN else signed_inf (0 < b))"
| "fmul r FNegInf (FFin b) = (if b = 0 then FNaN else signed_inf (b < 0))"
| "fmul r FPosInf FPosInf = FPosInf"
| "fmul r FNegInf FNegInf = FPosInf"
| "fmul r FPosInf FNegInf = FNegInf"
| "fmul r FNegInf FPosInf = FNegInf"

fun fdiv :: "(real \<Rightarrow> cfloat) \<Rightarrow> cfloat \<Rightarrow> cfloat \<Rightarrow> cfloat" where
  "fdiv r FNaN _ = FNaN"
| "fdiv r _ FNaN = FNaN"
| "fdiv r (FFin a) (FFin b) =
     (if b = 0 then (if a = 0 then FNaN else signed_inf (0 < a)) else r (a / b))"
| "fdiv r (FFin a) FPosInf = FFin 0"
| "fdiv r (FFin a) FNegInf = FFin 0"
| "fdiv r FPosInf (FFin b) = signed_inf (0 \<le> b)"
| "fdiv r FNegInf (FFin b) = signed_inf (b < 0)"
| "fdiv r FPosInf FPosInf = FNaN"
| "fdiv r FPosInf FNegInf = FNaN"
| "fdiv r FNegInf FPosInf = FNaN"
| "fdiv r FNegInf FNegInf = FNaN"


text \<open>
  \<open>adjustServo\<close>. \<open>rnd k\<close> is the rounding of the \<open>k\<close>-th conversion or operation of
  the function, in the order of evaluation, and \<open>lg\<close> is the \<open>log\<close> of the C library.
  \<open>normalizedLight\<close> is the initialiser of \<open>normalized_lightIntensity\<close> and \<open>servoTheta\<close>
  the initialiser of \<open>theta\<close>; \<open>*\<close> associates to the left. \<open>ts\<close> and \<open>tu\<close> are read
  from the state.
\<close>

definition normalizedLight :: "(nat \<Rightarrow> real \<Rightarrow> cfloat) \<Rightarrow> int \<Rightarrow> cfloat" where
  "normalizedLight rnd ldr =
     fsub (rnd 2) (FFin 1) (fdiv (rnd 1) (rnd 0 (of_int ldr)) (FFin (4095 - 0)))"



subsection \<open>The main loop\<close>

text \<open>
  What one pass of \<open>loop\<close> reads from outside: the messages that \<open>mqttClient.loop()\<close>
  hands to the callback, the clock at each call that reads it, the DHT and LDR samples
  and the NTP wall clock.
\<close>

record Cycle =
  mqttMessages :: "(string \<times> string) list"
  currentTime :: millis
  envMillis :: millis
  alarmMillis :: millis
  ledMillis :: millis
  beepMillis :: millis
  snoozeMillis :: millis
  dhtTemperature :: cfloat
  dhtHumidity :: cfloat
  ntpHours :: int
  ntpMinutes :: int
  ldrValue :: int

definition takeSample :: "Cycle \<Rightarrow> State \<Rightarrow> State" where
  "takeSample c s =
     (if currentTime c - lastSampleTime s \<ge> samplingInterval s
      then s\<lparr>lastSampleTime := currentTime c, lightSamples := lightSamples s @ [ldrValue c],
             sampleCount := sampleCount s + 1\<rparr>
      else s)"

text \<open>
  The block guarded by the sending interval. In the source it encloses, after the
  publication and the reset of the accumulator, the call of \<open>handleAlarmTrigger\<close> and the
  two tests commented "Check for immediate alarm actions".
\<close>

definition sendBlock :: "Cycle \<Rightarrow> State \<Rightarrow> State" where
  "sendBlock c s =
     (if currentTime c - lastSendTime s \<ge> sendingInterval s
      then (let s1 = s\<lparr>lastSendTime := currentTime c, lightSamples := [], sampleCount := 0\<rparr>;
                s2 = (if alarmTriggered s1 then handleAlarmTrigger (beepMillis c) s1 else s1);
                s3 = (if stopAlarmFlag s2
                      then stopAlarm (s2\<lparr>stopAlarmFlag := False\<rparr>) else s2);
                s4 = (if snoozeAlarmFlag s3
                      then snoozeAlarm (snoozeMillis c) (s3\<lparr>snoozeAlarmFlag := False\<rparr>)
                      else s3)
            in s4)
      else s)"

text \<open>
  \<open>loop\<close> calls \<open>adjustServo\<close> between \<open>handleLED\<close> and the sampling; the call leaves
  the state as it is.
\<close>

definition loop :: "Cycle \<Rightarrow> State \<Rightarrow> State" where
  "loop c s =
     (let s1 = fold (\<lambda>(topic, message). recieveCallback topic message) (mqttMessages c) s;
          s2 = handleButtons s1;
          s3 = checkEnvironment (envMillis c) (dhtTemperature c) (dhtHumidity c) s2;
          s4 = updateDisplay s3;
          s5 = checkAlarms (ntpHours c) (ntpMinutes c) (alarmMillis c) s4;
          s6 = handleLED (ledMillis c) s5;
          s7 = takeSample c s6
      in sendBlock c s7)"

text \<open>
  The states the program can be in: the initial one, and any state reached from a
  reachable one by an interrupt service routine or by one pass of the main loop.
\<close>

inductive reachable :: "State \<Rightarrow> bool" where
  reach_init: "reachable init"
| reach_isr: "reachable s \<Longrightarrow> reachable (isr b now s)"
| reach_loop: "reachable s \<Longrightarrow> reachable (loop c s)"

text \<open>The array has two slots and every cursor that indexes it stays inside.\<close>

definition wellformed :: "State \<Rightarrow> bool" where
  "wellformed s = (length (alarms s) = 2 \<and> currentAlarmIndex s \<in> {0, 1}
           \<and> viewAlarmsSelection s \<in> {0, 1})"

definition not_both :: "Alarm \<Rightarrow> bool" where
  "not_both a = (\<not> (ringing a \<and> snoozed a))"

text \<open>
  The alarm page is shown and the alarm flag is set; \<open>l\<close> and \<open>i\<close> name the time of the
  last publication and the sending interval.
\<close>

definition ringing_page :: "millis \<Rightarrow> millis \<Rightarrow> State \<Rightarrow> bool" where
  "ringing_page l i s = (currentState s = ALARM_TRIGGERED \<and> alarmTriggered s
     \<and> lastSendTime s = l \<and> sendingInterval s = i)"

definition slots_ok :: "State \<Rightarrow> bool" where
  "slots_ok s = (wellformed s \<and> not_both (alarms s ! 0) \<and> not_both (alarms s ! 1))"

subsection \<open>Concrete states used to run the model\<close>

text \<open>Both slots armed for 08:30, nothing ringing, the clock page shown.\<close>

definition two_alarms :: State where
  "two_alarms = init\<lparr>alarms := [alarm0\<lparr>hour := 8, minute := 30, active := True\<rparr>,
       alarm0\<lparr>hour := 8, minute := 30, active := True\<rparr>], currentState := SHOW_TIME\<rparr>"

text \<open>Slot 0 ringing on the alarm page, slot 1 armed for 09:15.\<close>

definition snooze_demo :: State where
  "snooze_demo = init\<lparr>alarms :=
       [alarm0\<lparr>hour := 8, minute := 30, active := True, ringing := True\<rparr>,
        alarm0\<lparr>hour := 9, minute := 15, active := True\<rparr>],
     alarmTriggered := True, currentState := ALARM_TRIGGERED\<rparr>"

text \<open>Slot 0 ringing while slot 1 is still snoozed.\<close>

definition ringing_both :: State where
  "ringing_both = init\<lparr>alarms :=
       [alarm0\<lparr>hour := 8, minute := 30, active := True, ringing := True\<rparr>,
        alarm0\<lparr>hour := 8, minute := 30, active := True, snoozed := True,
          snoozeStartTime := 77\<rparr>],
     alarmTriggered := True, currentState := ALARM_TRIGGERED\<rparr>"

text \<open>
  A pass of the main loop that starts at time \<open>t\<close> with no MQTT message, 28 degrees,
  70 percent humidity, a mid-range light reading and the wall clock at 00:00; the calls
  after \<open>delay(100)\<close> read the clock 100 ms later.
\<close>

definition quiet :: "millis \<Rightarrow> Cycle" where
  "quiet t = \<lparr>mqttMessages = [], currentTime = t, envMillis = t, alarmMillis = t,
     ledMillis = t, beepMillis = t + 100, snoozeMillis = t + 100, dhtTemperature = FFin 28,
     dhtHumidity = FFin 70, ntpHours = 0, ntpMinutes = 0, ldrValue = 2000\<rparr>"

text \<open>An edge of button \<open>b\<close> at time \<open>t\<close>, and the pass of the loop that starts 50 ms later.\<close>

definition press :: "Button \<Rightarrow> millis \<Rightarrow> State \<Rightarrow> State" where
  "press b t s = loop (quiet (t + 50)) (isr b t s)"

text \<open>
  Five Right presses from the start, one second apart: welcome page, clock, main menu,
  "Set Alarm 1", hour, minute. The fifth arms slot 0 for 00:00, and the scheduler of the
  same pass rings it.
\<close>

definition alarm_page :: State where
  "alarm_page = press Right 5000 (press Right 4000 (press Right 3000 (press Right 2000
     (press Right 1000 init))))"

text \<open>A pass at 100 ms that receives the payload "10" on the sampling-interval topic.\<close>

definition config_cycle :: Cycle where
  "config_cycle = (quiet 100)\<lparr>mqttMessages := [(sampling_interval_topic, ''10'')]\<rparr>"

text \<open>
  A rounding that rounds nothing and a logarithm with the special cases of the C
  library, to run \<open>adjustServo\<close> on concrete inputs.
\<close>

definition exact :: "nat \<Rightarrow> real \<Rightarrow> cfloat" where
  "exact k x = FFin x"



section \<open>Properties\<close>

subsection \<open>The scheduler\<close>

lemma checkAlarms_body_length [simp]:
  "length (alarms (checkAlarms_body h m t i s)) = length (alarms s)"
  by (simp add: checkAlarms_body_def Let_def)

lemma checkAlarms_body_other:
  "j \<noteq> i \<Longrightarrow> alarms (checkAlarms_body h m t i s) ! j = alarms s ! j"
  by (simp add: checkAlarms_body_def Let_def)

lemma checkAlarms_body_expired:
  "i < length (alarms s) \<Longrightarrow> snoozed (alarms s ! i) \<Longrightarrow>
   t - snoozeStartTime (alarms s ! i) \<ge> SNOOZE_DURATION \<Longrightarrow>
     \<not> snoozed (alarms (checkAlarms_body h m t i s) ! i)
     \<and> hour (alarms (checkAlarms_body h m t i s) ! i) = h
     \<and> minute (alarms (checkAlarms_body h m t i s) ! i) = m"
  by (simp add: checkAlarms_body_def Let_def)

lemma checkAlarms_body_match:
  "i < length (alarms s) \<Longrightarrow> \<not> snoozed (alarms s ! i) \<Longrightarrow> active (alarms s ! i) \<Longrightarrow>
   \<not> ringing (alarms s ! i) \<Longrightarrow> hour (alarms s ! i) = h \<Longrightarrow> minute (alarms s ! i) = m \<Longrightarrow>
     checkAlarms_body h m t i s =
       s\<lparr>alarms := (alarms s)[i := (alarms s ! i)\<lparr>ringing := True\<rparr>],
         alarmTriggered := True, currentState := ALARM_TRIGGERED\<rparr>"
  by (simp add: checkAlarms_body_def Let_def)

text \<open>
  Claim C1, as the specification states it: with no alarm ringing and both slots armed,
  not snoozed and set to the current hour and minute, one evaluation of the scheduler
  moves exactly one slot to Ringing. On the code this fails: the guard on
  \<open>alarmTriggered\<close> is tested once, before the loop, and the loop visits both slots. At
  08:30 with both slots set to 08:30 both slots ring after one call.
\<close>

theorem checkAlarms_one_slot_counterexample:
  "\<not> alarmTriggered two_alarms
   \<and> active (alarms two_alarms ! 0) \<and> active (alarms two_alarms ! 1)
   \<and> \<not> snoozed (alarms two_alarms ! 0) \<and> \<not> snoozed (alarms two_alarms ! 1)
   \<and> hour (alarms two_alarms ! 0) = 8 \<and> minute (alarms two_alarms ! 0) = 30
   \<and> hour (alarms two_alarms ! 1) = 8 \<and> minute (alarms two_alarms ! 1) = 30
   \<and> \<not> ringing (alarms two_alarms ! 0) \<and> \<not> ringing (alarms two_alarms ! 1)
   \<and> ringing (alarms (checkAlarms 8 30 1000 two_alarms) ! 0)
   \<and> ringing (alarms (checkAlarms 8 30 1000 two_alarms) ! 1)"
  by (simp add: two_alarms_def init_def alarm0_def checkAlarms_def checkAlarms_body_def Let_def)

text \<open>
  Claim C1, amended: in such a state one evaluation of the scheduler moves both slots to
  Ringing, sets the global flag \<open>alarmTriggered\<close> and shows the alarm page; and while the
  flag is set an evaluation changes nothing, so there is one global alarm episode at a
  time.
\<close>

theorem checkAlarms_both_match:
  "(length (alarms s) = 2 \<and> \<not> alarmTriggered s
     \<and> (\<forall>i<2. active (alarms s ! i) \<and> \<not> snoozed (alarms s ! i) \<and> \<not> ringing (alarms s ! i)
               \<and> hour (alarms s ! i) = h \<and> minute (alarms s ! i) = m) \<longrightarrow>
      ringing (alarms (checkAlarms h m now s) ! 0) \<and> ringing (alarms (checkAlarms h m now s) ! 1)
      \<and> alarmTriggered (checkAlarms h m now s)
      \<and> currentState (checkAlarms h m now s) = ALARM_TRIGGERED)
   \<and> (alarmTriggered s \<longrightarrow> checkAlarms h m now s = s)"
proof (intro conjI impI)
  assume a: "length (alarms s) = 2 \<and> \<not> alarmTriggered s
     \<and> (\<forall>i<2. active (alarms s ! i) \<and> \<not> snoozed (alarms s ! i) \<and> \<not> ringing (alarms s ! i)
               \<and> hour (alarms s ! i) = h \<and> minute (alarms s ! i) = m)"
  let ?v = "s\<lparr>alarms := (alarms s)[0 := (alarms s ! 0)\<lparr>ringing := True\<rparr>],
         alarmTriggered := True, currentState := ALARM_TRIGGERED\<rparr>"
  from a have s0: "active (alarms s ! 0) \<and> \<not> snoozed (alarms s ! 0) \<and> \<not> ringing (alarms s ! 0)
               \<and> hour (alarms s ! 0) = h \<and> minute (alarms s ! 0) = m" by simp
  from a have s1: "active (alarms s ! 1) \<and> \<not> snoozed (alarms s ! 1) \<and> \<not> ringing (alarms s ! 1)
               \<and> hour (alarms s ! 1) = h \<and> minute (alarms s ! 1) = m" by simp
  have v: "checkAlarms_body h m now 0 s = ?v"
    using a s0 by (simp add: checkAlarms_body_match)
  have w: "checkAlarms_body h m now 1 ?v =
      ?v\<lparr>alarms := (alarms ?v)[1 := (alarms ?v ! 1)\<lparr>ringing := True\<rparr>],
         alarmTriggered := True, currentState := ALARM_TRIGGERED\<rparr>"
    using a s1 by (intro checkAlarms_body_match) simp_all
  have c: "checkAlarms h m now s = checkAlarms_body h m now 1 ?v"
    using a v by (simp add: checkAlarms_def)
  show "ringing (alarms (checkAlarms h m now s) ! 0)" unfolding c w using a by simp
  show "ringing (alarms (checkAlarms h m now s) ! 1)" unfolding c w using a by simp
  show "alarmTriggered (checkAlarms h m now s)" unfolding c w by simp
  show "currentState (checkAlarms h m now s) = ALARM_TRIGGERED" unfolding c w by simp
next
  assume "alarmTriggered s"
  then show "checkAlarms h m now s = s" by (simp add: checkAlarms_def)
qed

theorem checkAlarms_both_match_witness:
  "length (alarms two_alarms) = 2 \<and> \<not> alarmTriggered two_alarms
     \<and> active (alarms two_alarms ! 0) \<and> \<not> snoozed (alarms two_alarms ! 0)
     \<and> \<not> ringing (alarms two_alarms ! 0)
     \<and> hour (alarms two_alarms ! 0) = 8 \<and> minute (alarms two_alarms ! 0) = 30
     \<and> active (alarms two_alarms ! 1) \<and> \<not> snoozed (alarms two_alarms ! 1)
     \<and> \<not> ringing (alarms two_alarms ! 1)
     \<and> hour (alarms two_alarms ! 1) = 8 \<and> minute (alarms two_alarms ! 1) = 30
     \<and> ringing (alarms (checkAlarms 8 30 1000 two_alarms) ! 0)
     \<and> ringing (alarms (checkAlarms 8 30 1000 two_alarms) ! 1)
     \<and> alarmTriggered (checkAlarms 8 30 1000 two_alarms)
     \<and> currentState (checkAlarms 8 30 1000 two_alarms) = ALARM_TRIGGERED
     \<and> checkAlarms 8 31 61000 (checkAlarms 8 30 1000 two_alarms)
         = checkAlarms 8 30 1000 two_alarms"
proof -
  have pre: "length (alarms two_alarms) = 2 \<and> \<not> alarmTriggered two_alarms
     \<and> (\<forall>i<2. active (alarms two_alarms ! i) \<and> \<not> snoozed (alarms two_alarms ! i)
               \<and> \<not> ringing (alarms two_alarms ! i)
               \<and> hour (alarms two_alarms ! i) = 8 \<and> minute (alarms two_alarms ! i) = 30)"
    by (simp add: two_alarms_def init_def alarm0_def less_Suc_eq numeral_2_eq_2)
  have pre01: "active (alarms two_alarms ! 0) \<and> \<not> snoozed (alarms two_alarms ! 0)
     \<and> \<not> ringing (alarms two_alarms ! 0)
     \<and> hour (alarms two_alarms ! 0) = 8 \<and> minute (alarms two_alarms ! 0) = 30
     \<and> active (alarms two_alarms ! 1) \<and> \<not> snoozed (alarms two_alarms ! 1)
     \<and> \<not> ringing (alarms two_alarms ! 1)
     \<and> hour (alarms two_alarms ! 1) = 8 \<and> minute (alarms two_alarms ! 1) = 30"
    by (simp add: two_alarms_def init_def alarm0_def)
  from checkAlarms_both_match [of two_alarms 8 30 1000] pre
  have post: "ringing (alarms (checkAlarms 8 30 1000 two_alarms) ! 0)
     \<and> ringing (alarms (checkAlarms 8 30 1000 two_alarms) ! 1)
     \<and> alarmTriggered (checkAlarms 8 30 1000 two_alarms)
     \<and> currentState (checkAlarms 8 30 1000 two_alarms) = ALARM_TRIGGERED" by blast
  from checkAlarms_both_match [of "checkAlarms 8 30 1000 two_alarms" 8 31 61000] post
  have "checkAlarms 8 31 61000 (checkAlarms 8 30 1000 two_alarms)
          = checkAlarms 8 30 1000 two_alarms"
    by blast
  with pre pre01 post show ?thesis by blast
qed

lemma checkAlarms_body_waiting:
  "snoozed (alarms s ! i) \<Longrightarrow> t - snoozeStartTime (alarms s ! i) < SNOOZE_DURATION \<Longrightarrow>
     checkAlarms_body h m t i s = s"
  by (simp add: checkAlarms_body_def Let_def not_le)

lemma checkAlarms_slot0:
  "\<not> alarmTriggered u \<Longrightarrow>
     alarms (checkAlarms h m now u) ! 0 = alarms (checkAlarms_body h m now 0 u) ! 0"
  by (simp add: checkAlarms_def checkAlarms_body_other)

lemma checkAlarms_slot1:
  "\<not> alarmTriggered u \<Longrightarrow>
     alarms (checkAlarms h m now u) ! 1
       = alarms (checkAlarms_body h m now 1 (checkAlarms_body h m now 0 u)) ! 1
     \<and> alarms (checkAlarms_body h m now 0 u) ! 1 = alarms u ! 1"
  by (simp add: checkAlarms_def checkAlarms_body_other)

text \<open>
  Claim C5: \<open>snoozeAlarm\<close> clears the global flag \<open>alarmTriggered\<close>, clears \<open>ringing\<close> on
  the slot under \<open>currentAlarmIndex\<close>, marks that slot snoozed with the time of the call
  as \<open>snoozeStartTime\<close>, and leaves the other slot as it was. While less than 120000 ms
  have elapsed since \<open>snoozeStartTime\<close>, an evaluation of the scheduler leaves the snoozed
  slot exactly as it is. Once 120000 ms have elapsed, and at exactly 120000 ms already,
  the evaluation clears \<open>snoozed\<close> and writes the wall-clock hour and minute of that
  evaluation into the slot.
\<close>

theorem snoozeAlarm_then_expiry:
  "(length (alarms s) = 2 \<and> currentAlarmIndex s \<in> {0, 1} \<longrightarrow>
      \<not> alarmTriggered (snoozeAlarm t0 s)
      \<and> \<not> ringing (alarms (snoozeAlarm t0 s) ! nat (currentAlarmIndex s))
      \<and> snoozed (alarms (snoozeAlarm t0 s) ! nat (currentAlarmIndex s))
      \<and> snoozeStartTime (alarms (snoozeAlarm t0 s) ! nat (currentAlarmIndex s)) = t0
      \<and> (\<forall>j. j \<noteq> nat (currentAlarmIndex s) \<longrightarrow> alarms (snoozeAlarm t0 s) ! j = alarms s ! j))
   \<and> (length (alarms u) = 2 \<and> i < 2 \<and> \<not> alarmTriggered u \<and> snoozed (alarms u ! i)
        \<and> now - snoozeStartTime (alarms u ! i) < 120000 \<longrightarrow>
      alarms (checkAlarms h m now u) ! i = alarms u ! i)
   \<and> (length (alarms u) = 2 \<and> i < 2 \<and> \<not> alarmTriggered u \<and> snoozed (alarms u ! i)
        \<and> 120000 \<le> now - snoozeStartTime (alarms u ! i) \<longrightarrow>
      \<not> snoozed (alarms (checkAlarms h m now u) ! i)
      \<and> hour (alarms (checkAlarms h m now u) ! i) = h
      \<and> minute (alarms (checkAlarms h m now u) ! i) = m)"
proof (intro conjI impI)
  assume a: "length (alarms s) = 2 \<and> currentAlarmIndex s \<in> {0, 1}"
  then have "nat (currentAlarmIndex s) < length (alarms s)" by auto
  then show "\<not> ringing (alarms (snoozeAlarm t0 s) ! nat (currentAlarmIndex s))"
    "snoozed (alarms (snoozeAlarm t0 s) ! nat (currentAlarmIndex s))"
    "snoozeStartTime (alarms (snoozeAlarm t0 s) ! nat (currentAlarmIndex s)) = t0"
    by (simp_all add: snoozeAlarm_def Let_def)
  show "\<not> alarmTriggered (snoozeAlarm t0 s)" by (simp add: snoozeAlarm_def Let_def)
  show "\<forall>j. j \<noteq> nat (currentAlarmIndex s) \<longrightarrow> alarms (snoozeAlarm t0 s) ! j = alarms s ! j"
    by (simp add: snoozeAlarm_def Let_def)
next
  assume b: "length (alarms u) = 2 \<and> i < 2 \<and> \<not> alarmTriggered u \<and> snoozed (alarms u ! i)
        \<and> now - snoozeStartTime (alarms u ! i) < 120000"
  then have w: "now - snoozeStartTime (alarms u ! i) < SNOOZE_DURATION"
    by (simp add: SNOOZE_DURATION_def)
  from b have "i = 0 \<or> i = 1" by auto
  then show "alarms (checkAlarms h m now u) ! i = alarms u ! i"
  proof
    assume i0: "i = 0"
    with b w have "checkAlarms_body h m now 0 u = u" by (simp add: checkAlarms_body_waiting)
    with b i0 show ?thesis using checkAlarms_slot0 [of u h m now] by simp
  next
    assume i1: "i = 1"
    let ?v = "checkAlarms_body h m now 0 u"
    from b have s1: "alarms (checkAlarms h m now u) ! 1 = alarms (checkAlarms_body h m now 1 ?v) ! 1"
      and v: "alarms ?v ! 1 = alarms u ! 1"
      using checkAlarms_slot1 [of u h m now] by simp_all
    from b w i1 v have "checkAlarms_body h m now 1 ?v = ?v"
      by (intro checkAlarms_body_waiting) simp_all
    with s1 v i1 show ?thesis by simp
  qed
next
  assume b: "length (alarms u) = 2 \<and> i < 2 \<and> \<not> alarmTriggered u \<and> snoozed (alarms u ! i)
        \<and> 120000 \<le> now - snoozeStartTime (alarms u ! i)"
  then have due: "now - snoozeStartTime (alarms u ! i) \<ge> SNOOZE_DURATION"
    by (simp add: SNOOZE_DURATION_def)
  from b have "i = 0 \<or> i = 1" by auto
  then have "\<not> snoozed (alarms (checkAlarms h m now u) ! i)
      \<and> hour (alarms (checkAlarms h m now u) ! i) = h
      \<and> minute (alarms (checkAlarms h m now u) ! i) = m"
  proof
    assume i0: "i = 0"
    have "alarms (checkAlarms h m now u) ! 0 = alarms (checkAlarms_body h m now 0 u) ! 0"
      using b by (simp add: checkAlarms_slot0)
    then show ?thesis using checkAlarms_body_expired [of 0 u now h m] b due i0 by simp
  next
    assume i1: "i = 1"
    let ?v = "checkAlarms_body h m now 0 u"
    have v: "alarms ?v ! 1 = alarms u ! 1" by (simp add: checkAlarms_body_other)
    have "checkAlarms h m now u = checkAlarms_body h m now 1 ?v"
      using b by (simp add: checkAlarms_def)
    then show ?thesis using checkAlarms_body_expired [of 1 ?v now h m] b due i1 v by simp
  qed
  then show "\<not> snoozed (alarms (checkAlarms h m now u) ! i)"
    "hour (alarms (checkAlarms h m now u) ! i) = h"
    "minute (alarms (checkAlarms h m now u) ! i) = m" by simp_all
qed

theorem snoozeAlarm_then_expiry_witness:
  "length (alarms snooze_demo) = 2 \<and> currentAlarmIndex snooze_demo \<in> {0, 1}
   \<and> snoozed (alarms (snoozeAlarm 5000 snooze_demo) ! 0)
   \<and> alarms (snoozeAlarm 5000 snooze_demo) ! 1 = alarms snooze_demo ! 1
   \<and> length (alarms (snoozeAlarm 5000 snooze_demo)) = 2 \<and> (0::nat) < 2
   \<and> \<not> alarmTriggered (snoozeAlarm 5000 snooze_demo)
   \<and> (124999::millis) - snoozeStartTime (alarms (snoozeAlarm 5000 snooze_demo) ! 0) < 120000
   \<and> alarms (checkAlarms 8 32 124999 (snoozeAlarm 5000 snooze_demo)) ! 0
       = alarms (snoozeAlarm 5000 snooze_demo) ! 0
   \<and> snoozed (alarms (checkAlarms 8 32 124999 (snoozeAlarm 5000 snooze_demo)) ! 0)
   \<and> (120000::millis) \<le> 125000 - snoozeStartTime (alarms (snoozeAlarm 5000 snooze_demo) ! 0)
   \<and> (125000::millis) - snoozeStartTime (alarms (snoozeAlarm 5000 snooze_demo) ! 0) = 120000
   \<and> \<not> snoozed (alarms (checkAlarms 8 33 125000 (snoozeAlarm 5000 snooze_demo)) ! 0)
   \<and> hour (alarms (checkAlarms 8 33 125000 (snoozeAlarm 5000 snooze_demo)) ! 0) = 8
   \<and> minute (alarms (checkAlarms 8 33 125000 (snoozeAlarm 5000 snooze_demo)) ! 0) = 33"
proof -
  let ?u = "snoozeAlarm 5000 snooze_demo"
  have pre: "length (alarms snooze_demo) = 2 \<and> currentAlarmIndex snooze_demo \<in> {0, 1}"
    by (simp add: snooze_demo_def init_def)
  have idx: "nat (currentAlarmIndex snooze_demo) = 0" by (simp add: snooze_demo_def init_def)
  from snoozeAlarm_then_expiry [of snooze_demo 5000] pre idx
  have a: "\<not> alarmTriggered ?u \<and> snoozed (alarms ?u ! 0)
     \<and> snoozeStartTime (alarms ?u ! 0) = 5000
     \<and> alarms ?u ! 1 = alarms snooze_demo ! 1" by simp
  have len: "length (alarms ?u) = 2"
    by (simp add: snoozeAlarm_def Let_def snooze_demo_def init_def)
  have early: "(124999::millis) - snoozeStartTime (alarms ?u ! 0) < 120000" using a by simp
  have el: "(125000::millis) - snoozeStartTime (alarms ?u ! 0) = 120000" using a by simp
  then have due: "(120000::millis) \<le> 125000 - snoozeStartTime (alarms ?u ! 0)" by simp
  from snoozeAlarm_then_expiry [of _ _ ?u 0 124999 8 32] a len early
  have b: "alarms (checkAlarms 8 32 124999 ?u) ! 0 = alarms ?u ! 0" by simp
  from snoozeAlarm_then_expiry [of _ _ ?u 0 125000 8 33] a len due
  have c: "\<not> snoozed (alarms (checkAlarms 8 33 125000 ?u) ! 0)
      \<and> hour (alarms (checkAlarms 8 33 125000 ?u) ! 0) = 8
      \<and> minute (alarms (checkAlarms 8 33 125000 ?u) ! 0) = 33" by simp
  from pre a len early el due b c show ?thesis by simp
qed

lemma stopAlarm_alarms:
  "alarms (stopAlarm s) =
     (alarms s)[0 := (alarms s ! 0)\<lparr>ringing := False, snoozed := False\<rparr>,
                1 := (alarms s ! 1)\<lparr>ringing := False, snoozed := False\<rparr>]"
  by (simp add: stopAlarm_def stopAlarm_body_def Let_def)

text \<open>
  Claim C6: whichever slot is ringing, \<open>stopAlarm\<close> clears \<open>ringing\<close> and \<open>snoozed\<close> on
  both slots, clears the global flag \<open>alarmTriggered\<close> and shows the clock page; the
  hour, the minute and the \<open>active\<close> flag of each slot stay as they were.
\<close>

theorem stopAlarm_clears_both:
  "length (alarms s) = 2 \<Longrightarrow> i < 2 \<Longrightarrow>
     \<not> ringing (alarms (stopAlarm s) ! i) \<and> \<not> snoozed (alarms (stopAlarm s) ! i)
     \<and> \<not> alarmTriggered (stopAlarm s) \<and> currentState (stopAlarm s) = SHOW_TIME
     \<and> hour (alarms (stopAlarm s) ! i) = hour (alarms s ! i)
     \<and> minute (alarms (stopAlarm s) ! i) = minute (alarms s ! i)
     \<and> active (alarms (stopAlarm s) ! i) = active (alarms s ! i)
     \<and> length (alarms (stopAlarm s)) = 2"
proof -
  assume len: "length (alarms s) = 2" and i: "i < 2"
  from i have "i = 0 \<or> i = 1" by auto
  then have slot:
    "alarms (stopAlarm s) ! i = (alarms s ! i)\<lparr>ringing := False, snoozed := False\<rparr>"
    using len by (auto simp: stopAlarm_alarms)
  have flags: "\<not> alarmTriggered (stopAlarm s) \<and> currentState (stopAlarm s) = SHOW_TIME"
    by (simp add: stopAlarm_def stopAlarm_body_def Let_def)
  have "length (alarms (stopAlarm s)) = 2" using len by (simp add: stopAlarm_alarms)
  with slot flags show ?thesis by simp
qed

theorem stopAlarm_clears_both_witness:
  "length (alarms ringing_both) = 2 \<and> (1::nat) < 2
   \<and> snoozed (alarms ringing_both ! 1)
   \<and> \<not> snoozed (alarms (stopAlarm ringing_both) ! 1)
   \<and> \<not> alarmTriggered (stopAlarm ringing_both)
   \<and> hour (alarms (stopAlarm ringing_both) ! 1) = 8"
proof -
  have len: "length (alarms ringing_both) = 2" by (simp add: ringing_both_def init_def)
  have i: "(1::nat) < 2" by simp
  have pre: "snoozed (alarms ringing_both ! 1) \<and> hour (alarms ringing_both ! 1) = 8"
    by (simp add: ringing_both_def init_def alarm0_def)
  from stopAlarm_clears_both [OF len i] pre len show ?thesis by simp
qed

subsection \<open>Debounced input\<close>

text \<open>
  Claim C4, as the specification states it: an edge that arrives at least 200 ms after
  the last accepted edge is accepted. On the code this fails at exactly 200 ms, because
  the test is \<open>millis() - lastInterruptTime > DEBOUNCE_TIME\<close>: after a Left edge accepted
  at 1000 ms an Up edge at 1200 ms sets no flag and leaves the time stamp at 1000.
\<close>

theorem isr_debounce_counterexample:
  "btnLeftPressed (isr Left 1000 init) \<and> lastInterruptTime (isr Left 1000 init) = 1000
   \<and> \<not> btnUpPressed (isr Up 1200 (isr Left 1000 init))
   \<and> lastInterruptTime (isr Up 1200 (isr Left 1000 init)) = 1000"
  by (simp add: handleUpInterrupt_def handleLeftInterrupt_def DEBOUNCE_TIME_def init_def)

text \<open>
  Claim C4, amended: the four buttons share the one time stamp \<open>lastInterruptTime\<close>
  (0 at start). With the elapsed time taken as \<open>millis() - lastInterruptTime\<close> in 32-bit
  unsigned arithmetic, an edge of any button that arrives at most 200 ms after the time
  stamp is dropped, the whole state staying as it was; an edge that arrives more than
  200 ms after it is accepted: the pending flag of its button is set, the time stamp
  becomes the time of the edge, and the pending flags of the other buttons are not
  touched, whichever button fired before.
\<close>

theorem isr_debounce:
  "(unat (now - lastInterruptTime s) \<le> 200 \<longrightarrow> isr b now s = s)
   \<and> (200 < unat (now - lastInterruptTime s) \<longrightarrow>
        pressed b (isr b now s) \<and> lastInterruptTime (isr b now s) = now
        \<and> (\<forall>b'. b' \<noteq> b \<longrightarrow> pressed b' (isr b now s) = pressed b' s))"
proof -
  have eq: "(DEBOUNCE_TIME < now - lastInterruptTime s)
      = (200 < unat (now - lastInterruptTime s))"
    by (simp add: DEBOUNCE_TIME_def word_less_nat_alt)
  show ?thesis
  proof (cases b)
    case Up
    then show ?thesis using eq by (auto simp: handleUpInterrupt_def elim: pressed.elims)
  next
    case Left
    then show ?thesis using eq by (auto simp: handleLeftInterrupt_def elim: pressed.elims)
  next
    case Down
    then show ?thesis using eq
      by (auto simp: handleDownInterrupt_def Let_def elim: pressed.elims)
  next
    case Right
    then show ?thesis using eq
      by (auto simp: handleRightInterrupt_def Let_def elim: pressed.elims)
  qed
qed

theorem isr_debounce_witness:
  "unat ((1200::millis) - lastInterruptTime (isr Left 1000 init)) \<le> 200
   \<and> isr Up 1200 (isr Left 1000 init) = isr Left 1000 init
   \<and> 200 < unat ((1201::millis) - lastInterruptTime (isr Left 1000 init))
   \<and> pressed Up (isr Up 1201 (isr Left 1000 init))
   \<and> lastInterruptTime (isr Up 1201 (isr Left 1000 init)) = 1201
   \<and> pressed Left (isr Up 1201 (isr Left 1000 init))"
proof -
  have p: "pressed Left (isr Left 1000 init)"
    by (simp add: handleLeftInterrupt_def DEBOUNCE_TIME_def init_def)
  have a: "unat ((1200::millis) - lastInterruptTime (isr Left 1000 init)) \<le> 200"
    by (simp add: handleLeftInterrupt_def DEBOUNCE_TIME_def init_def)
  have b: "200 < unat ((1201::millis) - lastInterruptTime (isr Left 1000 init))"
    by (simp add: handleLeftInterrupt_def DEBOUNCE_TIME_def init_def)
  from isr_debounce [of 1200 "isr Left 1000 init" Up] a
  have c: "isr Up 1200 (isr Left 1000 init) = isr Left 1000 init" by blast
  from isr_debounce [of 1201 "isr Left 1000 init" Up] b
  have d: "pressed Up (isr Up 1201 (isr Left 1000 init))
    \<and> lastInterruptTime (isr Up 1201 (isr Left 1000 init)) = 1201
    \<and> pressed Left (isr Up 1201 (isr Left 1000 init)) = pressed Left (isr Left 1000 init)"
    by blast
  show ?thesis using a b c d p by blast
qed

subsection \<open>The menu\<close>

text \<open>
  Claim C10: on the page that asks to confirm a deletion, a Left press shows the clock
  page (not the list of alarms) and changes nothing else; both slots keep all their
  fields.
\<close>

theorem confirmDelete_left:
  "currentState s = CONFIRM_DELETE \<Longrightarrow>
     currentState (handleLeftButton s) = SHOW_TIME \<and> alarms (handleLeftButton s) = alarms s
     \<and> handleLeftButton s = s\<lparr>currentState := SHOW_TIME\<rparr>"
  by (simp add: handleLeftButton_def)

theorem confirmDelete_left_witness:
  "currentState (snooze_demo\<lparr>currentState := CONFIRM_DELETE\<rparr>) = CONFIRM_DELETE
   \<and> currentState (handleLeftButton (snooze_demo\<lparr>currentState := CONFIRM_DELETE\<rparr>)) = SHOW_TIME
   \<and> alarms (handleLeftButton (snooze_demo\<lparr>currentState := CONFIRM_DELETE\<rparr>))
       = alarms snooze_demo"
proof -
  have c: "currentState (snooze_demo\<lparr>currentState := CONFIRM_DELETE\<rparr>) = CONFIRM_DELETE"
    by simp
  from confirmDelete_left [OF c] c show ?thesis by simp
qed

subsection \<open>The environment monitor\<close>

text \<open>
  Claim C8: a check of the environment (one that is due, more than 2000 ms after the
  last) stores the fresh temperature and humidity, sets the warning to
  temperature < 24 or temperature > 32 or humidity < 65 or humidity > 80, and drives the
  buzzer high exactly when the warning holds and the global flag \<open>alarmTriggered\<close> is
  clear, low otherwise.
\<close>

theorem checkEnvironment_warning:
  "now - lastEnvCheck s > ENV_CHECK_INTERVAL \<Longrightarrow>
     temperature (checkEnvironment now t h s) = t \<and> humidity (checkEnvironment now t h s) = h
     \<and> envWarning (checkEnvironment now t h s) =
         (flt_less t (FFin 24) \<or> flt_less (FFin 32) t
          \<or> flt_less h (FFin 65) \<or> flt_less (FFin 80) h)
     \<and> buzzerPin (checkEnvironment now t h s) =
         (envWarning (checkEnvironment now t h s) \<and> \<not> alarmTriggered s)"
  by (simp add: checkEnvironment_def Let_def MIN_TEMP_def MAX_TEMP_def MIN_HUMIDITY_def
      MAX_HUMIDITY_def)

theorem checkEnvironment_warning_witness:
  "(2001::millis) - lastEnvCheck init > ENV_CHECK_INTERVAL
   \<and> envWarning (checkEnvironment 2001 (FFin 33) (FFin 70) init)
   \<and> buzzerPin (checkEnvironment 2001 (FFin 33) (FFin 70) init)
   \<and> \<not> envWarning (checkEnvironment 2001 (FFin 28) (FFin 70) init)
   \<and> \<not> buzzerPin (checkEnvironment 2001 (FFin 28) (FFin 70) init)
   \<and> (4100::millis) - lastEnvCheck snooze_demo > ENV_CHECK_INTERVAL
   \<and> envWarning (checkEnvironment 4100 (FFin 20) (FFin 70) snooze_demo)
   \<and> \<not> buzzerPin (checkEnvironment 4100 (FFin 20) (FFin 70) snooze_demo)"
proof -
  have d: "(2001::millis) - lastEnvCheck init > ENV_CHECK_INTERVAL"
    by (simp add: init_def ENV_CHECK_INTERVAL_def)
  have e: "(4100::millis) - lastEnvCheck snooze_demo > ENV_CHECK_INTERVAL"
    by (simp add: snooze_demo_def init_def ENV_CHECK_INTERVAL_def)
  have q: "\<not> alarmTriggered init" by (simp add: init_def)
  have r: "alarmTriggered snooze_demo" by (simp add: snooze_demo_def)
  from checkEnvironment_warning [OF d, of "FFin 33" "FFin 70"] q
  have a: "envWarning (checkEnvironment 2001 (FFin 33) (FFin 70) init)
     \<and> buzzerPin (checkEnvironment 2001 (FFin 33) (FFin 70) init)" by simp
  from checkEnvironment_warning [OF d, of "FFin 28" "FFin 70"] q
  have b: "\<not> envWarning (checkEnvironment 2001 (FFin 28) (FFin 70) init)
     \<and> \<not> buzzerPin (checkEnvironment 2001 (FFin 28) (FFin 70) init)" by simp
  from checkEnvironment_warning [OF e, of "FFin 20" "FFin 70"] r
  have c: "envWarning (checkEnvironment 4100 (FFin 20) (FFin 70) snooze_demo)
     \<and> \<not> buzzerPin (checkEnvironment 4100 (FFin 20) (FFin 70) snooze_demo)" by simp
  from a b c d e show ?thesis by simp
qed

subsection \<open>The alarm page\<close>

lemma alarm_page_right: "currentState s = ALARM_TRIGGERED \<Longrightarrow> handleRightButton s = stopAlarm s"
  by (simp add: handleRightButton_def)

lemma alarm_page_others:
  "currentState s = ALARM_TRIGGERED \<Longrightarrow>
     handleUpButton s = s \<and> handleLeftButton s = s \<and> handleDownButton s = s"
  by (simp add: handleUpButton_def handleLeftButton_def handleDownButton_def)

text \<open>
  A pass of the loop that starts on the alarm page with the alarm flag set, no Right
  press pending and the sending interval not yet elapsed ends on the alarm page with the
  flag still set, whatever else is pending or arrives.
\<close>

lemma ringing_page_recieveCallback:
  "ringing_page l i (recieveCallback topic message s) = ringing_page l i s
   \<and> btnRightPressed (recieveCallback topic message s) = btnRightPressed s"
  by (simp add: ringing_page_def recieveCallback_def)

lemma ringing_page_messages:
  "ringing_page l i (fold (\<lambda>(topic, message). recieveCallback topic message) ms s)
     = ringing_page l i s
   \<and> btnRightPressed (fold (\<lambda>(topic, message). recieveCallback topic message) ms s)
     = btnRightPressed s"
  by (induction ms arbitrary: s) (simp_all add: ringing_page_recieveCallback split_beta)

lemma ringing_page_handleButtons:
  "ringing_page l i s \<Longrightarrow> \<not> btnRightPressed s \<Longrightarrow> ringing_page l i (handleButtons s)"
  by (simp add: ringing_page_def handleButtons_def Let_def handleLeftButton_def
      handleUpButton_def handleDownButton_def)

lemma ringing_page_rest:
  "ringing_page l i s \<Longrightarrow>
     ringing_page l i (checkEnvironment t1 a b s) \<and> ringing_page l i (updateDisplay s)
     \<and> checkAlarms h m t2 s = s \<and> ringing_page l i (handleLED t3 s)
     \<and> ringing_page l i (takeSample c s)"
  by (simp add: ringing_page_def checkEnvironment_def Let_def updateDisplay_def findRinging_def
      checkAlarms_def handleLED_def takeSample_def)

lemma alarm_page_stays:
  assumes "currentState s = ALARM_TRIGGERED" "alarmTriggered s" "\<not> btnRightPressed s"
    "currentTime c - lastSendTime s < sendingInterval s"
  shows "currentState (loop c s) = ALARM_TRIGGERED \<and> alarmTriggered (loop c s)"
proof -
  let ?l = "lastSendTime s" and ?i = "sendingInterval s"
  let ?s1 = "fold (\<lambda>(topic, message). recieveCallback topic message) (mqttMessages c) s"
  let ?s2 = "handleButtons ?s1"
  let ?s3 = "checkEnvironment (envMillis c) (dhtTemperature c) (dhtHumidity c) ?s2"
  let ?s4 = "updateDisplay ?s3"
  let ?s6 = "handleLED (ledMillis c) ?s4"
  let ?s7 = "takeSample c ?s6"
  from assms have 0: "ringing_page ?l ?i s" by (simp add: ringing_page_def)
  with assms have 1: "ringing_page ?l ?i ?s1" "\<not> btnRightPressed ?s1"
    by (simp_all add: ringing_page_messages)
  then have 2: "ringing_page ?l ?i ?s2" by (simp add: ringing_page_handleButtons)
  then have 3: "ringing_page ?l ?i ?s3" by (simp add: ringing_page_rest)
  then have 4: "ringing_page ?l ?i ?s4" by (simp add: ringing_page_rest)
  then have 5: "checkAlarms (ntpHours c) (ntpMinutes c) (alarmMillis c) ?s4 = ?s4"
    by (simp add: ringing_page_rest)
  from 4 have 6: "ringing_page ?l ?i ?s6" by (simp add: ringing_page_rest)
  then have 7: "ringing_page ?l ?i ?s7" by (simp add: ringing_page_rest)
  have "loop c s = sendBlock c ?s7" by (simp add: loop_def Let_def 5)
  moreover have "sendBlock c ?s7 = ?s7"
    using 7 assms(4) by (simp add: sendBlock_def ringing_page_def)
  ultimately show ?thesis using 7 by (simp add: ringing_page_def)
qed

text \<open>
  Claim C2 says that on the alarm page a Down press snoozes the alarm and shows the
  clock page. In the code \<open>handleDownButton\<close> has no case for the alarm page, and the test
  of \<open>snoozeAlarmFlag\<close> in \<open>loop\<close>, under the comment "Check for immediate alarm actions",
  lies inside the block that runs once per sending interval. Run from the start: after
  the alarm of slot 0 rings, a Down edge at 6000 ms is accepted, and the pass of the loop
  that follows leaves the alarm page shown, the slot ringing and not snoozed and the flag
  pending; the snooze happens in the pass at 120000 ms, when the sending interval has
  elapsed.
\<close>

theorem down_press_waits_for_send_interval:
  "currentState alarm_page = ALARM_TRIGGERED \<and> ringing (alarms alarm_page ! 0)
   \<and> alarmTriggered alarm_page
   \<and> currentState (press Down 6000 alarm_page) = ALARM_TRIGGERED
   \<and> ringing (alarms (press Down 6000 alarm_page) ! 0)
   \<and> \<not> snoozed (alarms (press Down 6000 alarm_page) ! 0)
   \<and> alarmTriggered (press Down 6000 alarm_page)
   \<and> snoozeAlarmFlag (press Down 6000 alarm_page)
   \<and> currentState (loop (quiet 120000) (press Down 6000 alarm_page)) = SHOW_TIME
   \<and> snoozed (alarms (loop (quiet 120000) (press Down 6000 alarm_page)) ! 0)"
  by code_simp

subsection \<open>Remote configuration\<close>

lemma recieveCallback_samplingInterval:
  "samplingInterval (recieveCallback topic message s) = samplingInterval s"
  by (simp add: recieveCallback_def)

text \<open>
  Claim C3 says that a payload on the sampling-interval topic sets the interval at which
  light samples are taken. In the code the callback writes \<open>ts\<close>, while the test commented
  "Take light samples at the configured interval" compares with \<open>samplingInterval\<close>,
  which nothing writes. After the payload "10" \<open>ts\<close> is 10000 and \<open>samplingInterval\<close> is
  still 5000: passes of the loop at 5000 ms and at 10000 ms each take a sample.
\<close>

theorem sampling_config_not_applied:
  "ts (loop config_cycle init) = 10000
   \<and> samplingInterval (loop config_cycle init) = 5000
   \<and> sampleCount (loop config_cycle init) = 0
   \<and> sampleCount (loop (quiet 5000) (loop config_cycle init)) = 1
   \<and> lastSampleTime (loop (quiet 5000) (loop config_cycle init)) = 5000
   \<and> sampleCount (loop (quiet 10000) (loop (quiet 5000) (loop config_cycle init))) = 2"
  by code_simp

subsection \<open>Ringing and snoozed exclude each other\<close>

lemma two_slots: "length xs = 2 \<Longrightarrow> \<exists>a b. xs = [a, b]"
  by (cases xs; simp) (rename_tac ys, case_tac ys; simp)

lemma slots_okE:
  assumes "slots_ok s"
  obtains a b where "alarms s = [a, b]" "not_both a" "not_both b"
    "currentAlarmIndex s = 0 \<or> currentAlarmIndex s = 1"
    "viewAlarmsSelection s = 0 \<or> viewAlarmsSelection s = 1"
proof -
  from assms have len: "length (alarms s) = 2" by (simp add: slots_ok_def wellformed_def)
  then obtain a b where ab: "alarms s = [a, b]" using two_slots by blast
  with assms that show ?thesis by (auto simp: slots_ok_def wellformed_def)
qed

lemma slots_ok_init: "slots_ok init"
  by (simp add: slots_ok_def wellformed_def init_def not_both_def alarm0_def)

lemma slots_ok_isr: "slots_ok s \<Longrightarrow> slots_ok (isr b now s)"
  by (cases b)
     (simp_all add: slots_ok_def wellformed_def handleUpInterrupt_def handleLeftInterrupt_def
        handleDownInterrupt_def handleRightInterrupt_def Let_def)

lemma slots_ok_recieveCallback: "slots_ok s \<Longrightarrow> slots_ok (recieveCallback topic msg s)"
  by (simp add: slots_ok_def wellformed_def recieveCallback_def)

lemma slots_ok_messages:
  "slots_ok s \<Longrightarrow> slots_ok (fold (\<lambda>(topic, message). recieveCallback topic message) ms s)"
  by (induction ms arbitrary: s) (auto simp: slots_ok_recieveCallback)

lemma slots_ok_stopAlarm: "slots_ok s \<Longrightarrow> slots_ok (stopAlarm s)"
  by (erule slots_okE)
     (auto simp: slots_ok_def wellformed_def stopAlarm_def stopAlarm_body_def Let_def
        not_both_def)

lemma slots_ok_snoozeAlarm: "slots_ok s \<Longrightarrow> slots_ok (snoozeAlarm now s)"
  by (erule slots_okE)
     (auto simp: slots_ok_def wellformed_def snoozeAlarm_def Let_def not_both_def)

lemma slots_ok_deleteSelected: "slots_ok s \<Longrightarrow> slots_ok (deleteSelected s)"
  by (erule slots_okE)
     (auto simp: slots_ok_def wellformed_def deleteSelected_def Let_def not_both_def)

lemma slots_ok_handleRightButton: "slots_ok s \<Longrightarrow> slots_ok (handleRightButton s)"
proof (cases "currentState s")
  case SET_ALARM_MINUTE
  assume "slots_ok s"
  then show ?thesis using SET_ALARM_MINUTE
    by (elim slots_okE)
       (auto simp: slots_ok_def wellformed_def handleRightButton_def Let_def not_both_def)
next
  case CONFIRM_DELETE
  assume "slots_ok s"
  then show ?thesis using CONFIRM_DELETE
    by (simp add: handleRightButton_def slots_ok_deleteSelected)
next
  case ALARM_TRIGGERED
  assume "slots_ok s"
  then show ?thesis using ALARM_TRIGGERED
    by (simp add: handleRightButton_def slots_ok_stopAlarm)
qed (simp_all add: slots_ok_def wellformed_def handleRightButton_def)

lemma slots_ok_handleLeftButton: "slots_ok s \<Longrightarrow> slots_ok (handleLeftButton s)"
  by (simp add: slots_ok_def wellformed_def handleLeftButton_def)

lemma c_rem_two:
  "x = 0 \<or> x = 1 \<Longrightarrow> c_rem (x - 1 + 2) 2 \<in> {0, 1} \<and> c_rem (x + 1) 2 \<in> {0, 1}"
  by (auto simp: c_rem_def)

lemma slots_ok_handleUpButton: "slots_ok s \<Longrightarrow> slots_ok (handleUpButton s)"
proof (cases "currentState s")
  case SET_ALARM_HOUR
  assume "slots_ok s"
  then show ?thesis using SET_ALARM_HOUR
    by (elim slots_okE)
       (auto simp: slots_ok_def wellformed_def handleUpButton_def Let_def not_both_def)
next
  case SET_ALARM_MINUTE
  assume "slots_ok s"
  then show ?thesis using SET_ALARM_MINUTE
    by (elim slots_okE)
       (auto simp: slots_ok_def wellformed_def handleUpButton_def Let_def not_both_def)
next
  case VIEW_ALARMS
  assume "slots_ok s"
  then show ?thesis using VIEW_ALARMS c_rem_two [of "viewAlarmsSelection s"]
    by (auto simp: slots_ok_def wellformed_def handleUpButton_def)
next
  case CONFIRM_DELETE
  assume "slots_ok s"
  then show ?thesis using CONFIRM_DELETE
    by (simp add: handleUpButton_def slots_ok_deleteSelected)
qed (simp_all add: slots_ok_def wellformed_def handleUpButton_def Let_def)

lemma slots_ok_handleDownButton: "slots_ok s \<Longrightarrow> slots_ok (handleDownButton s)"
proof (cases "currentState s")
  case SET_ALARM_HOUR
  assume "slots_ok s"
  then show ?thesis using SET_ALARM_HOUR
    by (elim slots_okE)
       (auto simp: slots_ok_def wellformed_def handleDownButton_def Let_def not_both_def)
next
  case SET_ALARM_MINUTE
  assume "slots_ok s"
  then show ?thesis using SET_ALARM_MINUTE
    by (elim slots_okE)
       (auto simp: slots_ok_def wellformed_def handleDownButton_def Let_def not_both_def)
next
  case VIEW_ALARMS
  assume "slots_ok s"
  then show ?thesis using VIEW_ALARMS c_rem_two [of "viewAlarmsSelection s"]
    by (auto simp: slots_ok_def wellformed_def handleDownButton_def)
qed (simp_all add: slots_ok_def wellformed_def handleDownButton_def Let_def)

lemma slots_ok_flag:
  "slots_ok s \<Longrightarrow> slots_ok (s\<lparr>btnRightPressed := x\<rparr>) \<and> slots_ok (s\<lparr>btnLeftPressed := x\<rparr>)
     \<and> slots_ok (s\<lparr>btnUpPressed := x\<rparr>) \<and> slots_ok (s\<lparr>btnDownPressed := x\<rparr>)
     \<and> slots_ok (s\<lparr>stopAlarmFlag := x\<rparr>) \<and> slots_ok (s\<lparr>snoozeAlarmFlag := x\<rparr>)"
  by (simp add: slots_ok_def wellformed_def)

lemma slots_ok_handleButtons: "slots_ok s \<Longrightarrow> slots_ok (handleButtons s)"
  by (simp add: handleButtons_def Let_def slots_ok_flag slots_ok_handleRightButton
      slots_ok_handleLeftButton slots_ok_handleUpButton slots_ok_handleDownButton)

lemma slots_ok_checkEnvironment: "slots_ok s \<Longrightarrow> slots_ok (checkEnvironment now t h s)"
  by (simp add: slots_ok_def wellformed_def checkEnvironment_def Let_def)

lemma slots_ok_findRinging: "slots_ok s \<Longrightarrow> slots_ok (findRinging s)"
  by (simp add: slots_ok_def wellformed_def findRinging_def)

lemma slots_ok_updateDisplay: "slots_ok s \<Longrightarrow> slots_ok (updateDisplay s)"
  by (simp add: updateDisplay_def slots_ok_findRinging)

lemma slots_ok_checkAlarms_body:
  "slots_ok s \<Longrightarrow> i < 2 \<Longrightarrow> slots_ok (checkAlarms_body h m t i s)"
proof -
  assume ok: "slots_ok s" and "i < 2"
  then have "i = 0 \<or> i = 1" by auto
  with ok show ?thesis
    by (elim slots_okE)
       (auto simp: slots_ok_def wellformed_def checkAlarms_body_def Let_def not_both_def)
qed

lemma slots_ok_checkAlarms: "slots_ok s \<Longrightarrow> slots_ok (checkAlarms h m t s)"
  by (simp add: checkAlarms_def slots_ok_checkAlarms_body)

lemma slots_ok_handleLED: "slots_ok s \<Longrightarrow> slots_ok (handleLED now s)"
  by (simp add: slots_ok_def wellformed_def handleLED_def)

lemma slots_ok_takeSample: "slots_ok s \<Longrightarrow> slots_ok (takeSample c s)"
  by (simp add: slots_ok_def wellformed_def takeSample_def)

lemma slots_ok_handleAlarmTrigger: "slots_ok s \<Longrightarrow> slots_ok (handleAlarmTrigger now s)"
proof -
  assume "slots_ok s"
  then have "slots_ok (s\<lparr>buzzerPin := False\<rparr>)"
    "slots_ok (s\<lparr>buzzerPin := False, buzzerState := \<not> buzzerState s,
        buzzerPin := \<not> buzzerState s, lastBeep := now\<rparr>)"
    by (simp_all add: slots_ok_def wellformed_def)
  then show ?thesis
    by (simp add: handleAlarmTrigger_def Let_def slots_ok_findRinging)
qed

lemma slots_ok_sendBlock: "slots_ok s \<Longrightarrow> slots_ok (sendBlock c s)"
proof -
  assume ok: "slots_ok s"
  let ?s1 = "s\<lparr>lastSendTime := currentTime c, lightSamples := [], sampleCount := 0\<rparr>"
  let ?s2 = "if alarmTriggered ?s1 then handleAlarmTrigger (beepMillis c) ?s1 else ?s1"
  let ?s3 = "if stopAlarmFlag ?s2 then stopAlarm (?s2\<lparr>stopAlarmFlag := False\<rparr>) else ?s2"
  let ?s4 = "if snoozeAlarmFlag ?s3
             then snoozeAlarm (snoozeMillis c) (?s3\<lparr>snoozeAlarmFlag := False\<rparr>) else ?s3"
  from ok have 1: "slots_ok ?s1" by (simp add: slots_ok_def wellformed_def)
  then have 2: "slots_ok ?s2" by (simp add: slots_ok_handleAlarmTrigger)
  then have 3: "slots_ok ?s3" by (simp add: slots_ok_stopAlarm slots_ok_flag)
  then have 4: "slots_ok ?s4" by (simp add: slots_ok_snoozeAlarm slots_ok_flag)
  have "sendBlock c s
      = (if currentTime c - lastSendTime s \<ge> sendingInterval s then ?s4 else s)"
    by (simp add: sendBlock_def Let_def)
  with ok 4 show ?thesis by simp
qed

lemma slots_ok_loop: "slots_ok s \<Longrightarrow> slots_ok (loop c s)"
  unfolding loop_def Let_def
  by (intro slots_ok_sendBlock slots_ok_takeSample slots_ok_handleLED slots_ok_checkAlarms
      slots_ok_updateDisplay slots_ok_checkEnvironment slots_ok_handleButtons
      slots_ok_messages)

lemma reachable_slots_ok: "reachable s \<Longrightarrow> slots_ok s"
  by (induction rule: reachable.induct) (simp_all add: slots_ok_init slots_ok_isr slots_ok_loop)

text \<open>
  Claim C9: in every reachable state neither slot is both ringing and snoozed; and each
  operation that writes these flags (the scheduler, with its trigger and its rearming of
  an expired snooze, the snooze, the stop and the deletion from the menu) keeps it so,
  started in any state where the array has its two slots, the cursors point into it and
  no slot is both ringing and snoozed. The interrupt routines write the button flags and
  the time stamp only, so they keep it wherever they fire.
\<close>

theorem ringing_snoozed_exclusive:
  "(reachable s \<and> i < 2 \<longrightarrow> \<not> (ringing (alarms s ! i) \<and> snoozed (alarms s ! i)))
   \<and> (slots_ok u \<longrightarrow>
        slots_ok (checkAlarms h m t u) \<and> slots_ok (snoozeAlarm t u) \<and> slots_ok (stopAlarm u)
        \<and> slots_ok (deleteSelected u) \<and> slots_ok (isr b t u))"
proof (intro conjI impI)
  assume a: "reachable s \<and> i < 2"
  then have ok: "slots_ok s" by (simp add: reachable_slots_ok)
  from a have "i = 0 \<or> i = 1" by auto
  with ok show "\<not> (ringing (alarms s ! i) \<and> snoozed (alarms s ! i))"
    by (auto simp: slots_ok_def not_both_def)
next
  assume "slots_ok u"
  then show "slots_ok (checkAlarms h m t u)" "slots_ok (snoozeAlarm t u)"
    "slots_ok (stopAlarm u)" "slots_ok (deleteSelected u)" "slots_ok (isr b t u)"
    by (simp_all add: slots_ok_checkAlarms slots_ok_snoozeAlarm slots_ok_stopAlarm
        slots_ok_deleteSelected slots_ok_isr)
qed

theorem ringing_snoozed_exclusive_witness:
  "reachable (loop (quiet 120000) (press Down 6000 alarm_page)) \<and> (0::nat) < 2
   \<and> snoozed (alarms (loop (quiet 120000) (press Down 6000 alarm_page)) ! 0)
   \<and> \<not> ringing (alarms (loop (quiet 120000) (press Down 6000 alarm_page)) ! 0)
   \<and> slots_ok ringing_both
   \<and> slots_ok (stopAlarm ringing_both)
   \<and> slots_ok (snoozeAlarm 9000 ringing_both)"
proof -
  let ?x = "loop (quiet 120000) (press Down 6000 alarm_page)"
  have r: "reachable ?x"
    unfolding alarm_page_def press_def by (intro reachable.intros)
  have z: "snoozed (alarms ?x ! 0)" by code_simp
  have ok: "slots_ok ringing_both"
    by (simp add: slots_ok_def wellformed_def not_both_def ringing_both_def init_def alarm0_def)
  from ringing_snoozed_exclusive [of ?x 0 ringing_both _ _ 9000] r z ok
  show ?thesis by simp
qed

subsection \<open>The servo angle\<close>

lemma fmul_NaN_right [simp]: "fmul r x FNaN = FNaN"
  by (cases x) simp_all

lemma fadd_NaN_right [simp]: "fadd r x FNaN = FNaN"
  by (cases x) simp_all


lemma flt_less_NaN_right [simp]: "flt_less x FNaN = False"
  by (cases x) simp_all









lemma normalizedLight_dark: "normalizedLight exact 4095 = FFin 0"
  by (simp add: normalizedLight_def exact_def fsub_def)




end
